theory Spec2Isabelle
  imports Main "HOL-Library.Word"
begin

section \<open>Uploaded payloads and the form's validation (forms.py)\<close>

text \<open>
  The object bound to the form field \<open>file\<close>: the client-supplied file name, the declared
  MIME type, the byte size reported by the upload and the bytes that \<open>read()\<close> returns.
  Python integers are unbounded, so \<open>size\<close> is an \<open>int\<close>.
\<close>

type_synonym bytes = "8 word list"

record uploaded_file =
  name :: string
  content_type :: string
  size :: int
  data :: bytes

definition ALLOWED_IMAGE_TYPES :: "string list" where
  "ALLOWED_IMAGE_TYPES = [''image/jpeg'', ''image/png'', ''image/gif'']"

definition MAX_FILE_SIZE :: int where
  "MAX_FILE_SIZE = 5 * 1024 * 1024"

text \<open>
  Decimal rendering of an integer, as an f-string replacement field \<open>{n}\<close> prints it.
\<close>

definition digit_char :: "nat \<Rightarrow> char" where
  "digit_char d = ''0123456789'' ! d"

fun str_nat :: "nat \<Rightarrow> string" where
  "str_nat n = (if n < 10 then [digit_char n] else str_nat (n div 10) @ [digit_char (n mod 10)])"

definition str_int :: "int \<Rightarrow> string" where
  "str_int i = (if i < 0 then CHR ''-'' # str_nat (nat (- i)) else str_nat (nat i))"

text \<open>
  \<open>clean_file\<close>: a raised \<open>ValidationError(message)\<close> is \<open>Inl message\<close>; the normal return
  hands the uploaded file back. The type check comes first, the size check second.
\<close>

definition clean_file :: "uploaded_file \<Rightarrow> string + uploaded_file" where
  "clean_file uploaded =
     (if content_type uploaded \<notin> set ALLOWED_IMAGE_TYPES
      then Inl ''Invalid file type. Only image files are allowed.''
      else if size uploaded > MAX_FILE_SIZE
      then Inl (''File size exceeds the limit of '' @ str_int (MAX_FILE_SIZE div (1024 * 1024)) @ '' MB.'')
      else Inr uploaded)"

text \<open>
  The form has the one field \<open>file = forms.FileField()\<close>. Cleaning the field first runs
  the field's own \<open>clean\<close>, which belongs to the web framework and is taken as the parameter
  \<open>field_clean\<close> (it receives \<open>request.FILES.get('file')\<close>), and then \<open>clean_file\<close> on the
  value the field returned. A \<open>ValidationError\<close> of either step becomes the field's error
  list and leaves \<open>cleaned_data\<close> without the key \<open>file\<close>. An unbound form
  (\<open>FileUploadForm()\<close>) has no errors and is not valid.
\<close>

record form =
  is_bound :: bool
  errors :: "string list"
  cleaned_data :: "uploaded_file option"

definition FileUploadForm_unbound :: form where
  "FileUploadForm_unbound = \<lparr>is_bound = False, errors = [], cleaned_data = None\<rparr>"

definition FileUploadForm ::
    "(uploaded_file option \<Rightarrow> string + uploaded_file) \<Rightarrow> uploaded_file option \<Rightarrow> form" where
  "FileUploadForm field_clean files =
     (case field_clean files of
        Inl e \<Rightarrow> \<lparr>is_bound = True, errors = [e], cleaned_data = None\<rparr>
      | Inr v \<Rightarrow>
          (case clean_file v of
             Inl e \<Rightarrow> \<lparr>is_bound = True, errors = [e], cleaned_data = None\<rparr>
           | Inr v' \<Rightarrow> \<lparr>is_bound = True, errors = [], cleaned_data = Some v'\<rparr>))"

definition is_valid :: "form \<Rightarrow> bool" where
  "is_valid f = (is_bound f \<and> errors f = [])"

text \<open>
  The field's own \<open>clean\<close> as the framework's \<open>forms.FileField()\<close> runs it with the
  defaults the form leaves in place (required, no \<open>max_length\<close>, \<open>allow_empty_file = False\<close>).
  It is framework code, not part of the repository: no file gives "This field is required.",
  an empty file name gives the "invalid" message, and a size of zero gives
  "The submitted file is empty."; otherwise the uploaded file is handed on unchanged.
\<close>

definition FileField_clean :: "uploaded_file option \<Rightarrow> string + uploaded_file" where
  "FileField_clean d =
     (case d of
        None \<Rightarrow> Inl ''This field is required.''
      | Some f \<Rightarrow>
          if name f = [] then Inl ''No file was submitted. Check the encoding type on the form.''
          else if size f = 0 then Inl ''The submitted file is empty.''
          else Inr f)"

section \<open>The File model and its table (models.py and the initial migration)\<close>

text \<open>
  A row of the model \<open>File\<close>. The fields carry the prefix \<open>file_\<close> because the uploaded
  object has attributes of the same names. \<open>uploaded_at\<close> is \<open>None\<close> for a null timestamp;
  \<open>auto_now_add\<close> fills it with the clock's value when the row is created.
\<close>

type_synonym timestamp = int

record File =
  file_id :: int
  file_name :: string
  file_content :: bytes
  file_content_type :: string
  uploaded_at :: "timestamp option"

text \<open>
  The table in insertion order, together with the counter behind the auto-created
  primary key \<open>id\<close>. No view of the application updates or deletes a row.
\<close>

record store =
  rows :: "File list"
  next_id :: int

definition empty_store :: store where
  "empty_store = \<lparr>rows = [], next_id = 1\<rparr>"

text \<open>
  The state every run of the application keeps: ids grow strictly in insertion order
  (so the primary key is unique) and lie below the counter.
\<close>

definition store_ok :: "store \<Rightarrow> bool" where
  "store_ok s = (sorted_wrt (<) (map file_id (rows s)) \<and> list_all (\<lambda>r. file_id r < next_id s) (rows s))"

text \<open>\<open>File.objects.create(name=..., content=..., content_type=...)\<close> at clock value \<open>now\<close>.\<close>

definition objects_create :: "timestamp \<Rightarrow> string \<Rightarrow> bytes \<Rightarrow> string \<Rightarrow> store \<Rightarrow> File \<times> store" where
  "objects_create now n c ct s =
     (let obj = \<lparr>file_id = next_id s, file_name = n, file_content = c,
                 file_content_type = ct, uploaded_at = Some now\<rparr>
      in (obj, s\<lparr>rows := rows s @ [obj], next_id := next_id s + 1\<rparr>))"

datatype error =
    DoesNotExist | MultipleObjectsReturned | Http404 | KeyError | BadHeaderError | UnicodeEncodeError

text \<open>\<open>File.objects.get(id=i)\<close>: exactly one matching row, or an exception.\<close>

definition objects_get :: "store \<Rightarrow> int \<Rightarrow> error + File" where
  "objects_get s i =
     (case filter (\<lambda>r. file_id r = i) (rows s) of
        [] \<Rightarrow> Inl DoesNotExist
      | [r] \<Rightarrow> Inr r
      | _ \<Rightarrow> Inl MultipleObjectsReturned)"

text \<open>\<open>get_object_or_404(File, id=i)\<close> turns \<open>DoesNotExist\<close> into \<open>Http404\<close> and nothing else.\<close>

definition get_object_or_404 :: "store \<Rightarrow> int \<Rightarrow> error + File" where
  "get_object_or_404 s i =
     (case objects_get s i of
        Inl DoesNotExist \<Rightarrow> Inl Http404
      | Inl e \<Rightarrow> Inl e
      | Inr r \<Rightarrow> Inr r)"

text \<open>\<open>File.objects.all().order_by('-id')[:5]\<close>: descending by id, then the first five.\<close>

definition order_by_minus_id :: "File list \<Rightarrow> File list" where
  "order_by_minus_id xs = rev (sort_key file_id xs)"

definition recent_files :: "store \<Rightarrow> File list" where
  "recent_files s = take 5 (order_by_minus_id (rows s))"

section \<open>The views (views.py)\<close>

text \<open>
  Header names and values are Python strings; a string stands for its UTF-8 bytes, so a
  character up to U+007F is one byte below 0x80, a character up to U+00FF starts with the
  byte 0xC2 or 0xC3, and every other character starts with a byte from 0xC4 on.
  \<open>has_newline\<close> is the framework's test \<open>"\n" in value or "\r" in value\<close>;
  \<open>encodes_ascii\<close> and \<open>encodes_latin1\<close> say that \<open>value.encode(charset)\<close> does not raise.
\<close>

definition has_newline :: "string \<Rightarrow> bool" where
  "has_newline v = (CHR 0x0A \<in> set v \<or> CHR 0x0D \<in> set v)"

definition encodes_ascii :: "string \<Rightarrow> bool" where
  "encodes_ascii v = list_all (\<lambda>c. (of_char c :: nat) < 128) v"

definition encodes_latin1 :: "string \<Rightarrow> bool" where
  "encodes_latin1 v = list_all (\<lambda>c. (of_char c :: nat) < 196) v"

text \<open>
  What the response stores for a header value: the string as it is, or, for a string that
  Latin-1 cannot encode, its MIME encoded-word (\<open>Header(value, 'utf-8').encode()\<close> of the
  Python library). The encoded-word is kept as the constructor \<open>MimeEncoded\<close> applied to
  the string it encodes; its text is not computed.
\<close>

datatype header_value = Plain string | MimeEncoded string

text \<open>
  The framework's conversion of a header name (\<open>charset = 'ascii'\<close>) and of a header value
  (\<open>charset = 'latin-1'\<close>, \<open>mime_encode = True\<close>): a carriage return or line feed raises
  \<open>BadHeaderError\<close> in both; a name outside ASCII raises \<open>UnicodeEncodeError\<close>, a value
  outside Latin-1 is replaced by its encoded-word.
\<close>

definition convert_name :: "string \<Rightarrow> error + string" where
  "convert_name k =
     (if has_newline k then Inl BadHeaderError
      else if encodes_ascii k then Inr k
      else Inl UnicodeEncodeError)"

definition convert_value :: "string \<Rightarrow> error + header_value" where
  "convert_value v =
     (if has_newline v then Inl BadHeaderError
      else if encodes_latin1 v then Inr (Plain v)
      else Inr (MimeEncoded v))"

text \<open>\<open>str.lower()\<close> on a header name, which is ASCII when it is applied.\<close>

definition ascii_lower :: "char \<Rightarrow> char" where
  "ascii_lower c =
     (case map_of (zip ''ABCDEFGHIJKLMNOPQRSTUVWXYZ'' ''abcdefghijklmnopqrstuvwxyz'') c of
        None \<Rightarrow> c
      | Some l \<Rightarrow> l)"

definition lower :: "string \<Rightarrow> string" where
  "lower k = map ascii_lower k"

text \<open>
  A raw response: status, headers and body. The headers are the framework's store: a
  dictionary from the lower-cased name to the pair of the name as given and the converted
  value, in the order the names were first set. \<open>response[k] = v\<close> is \<open>set_header\<close>: it
  converts name and value, which can raise, and then writes the entry under the lower-cased
  name. \<open>HttpResponse(content, content_type=ct)\<close> starts with status 200 and no header and
  sets Content-Type in that same way.
\<close>

record http_response =
  status :: nat
  headers :: "(string \<times> string \<times> header_value) list"
  body :: bytes

fun set_item :: "'k \<Rightarrow> 'v \<Rightarrow> ('k \<times> 'v) list \<Rightarrow> ('k \<times> 'v) list" where
  "set_item k v [] = [(k, v)]"
| "set_item k v ((k', v') # hs) = (if k' = k then (k, v) # hs else (k', v') # set_item k v hs)"

definition set_header :: "string \<Rightarrow> string \<Rightarrow> http_response \<Rightarrow> error + http_response" where
  "set_header k v r =
     (case convert_name k of
        Inl e \<Rightarrow> Inl e
      | Inr k' \<Rightarrow>
          (case convert_value v of
             Inl e \<Rightarrow> Inl e
           | Inr v' \<Rightarrow> Inr (r\<lparr>headers := set_item (lower k') (k', v') (headers r)\<rparr>)))"

definition get_header :: "string \<Rightarrow> (string \<times> string \<times> header_value) list \<Rightarrow> header_value option" where
  "get_header k hs = map_option snd (map_of hs (lower k))"

definition HttpResponse :: "bytes \<Rightarrow> string \<Rightarrow> error + http_response" where
  "HttpResponse c ct = set_header ''Content-Type'' ct \<lparr>status = 200, headers = [], body = c\<rparr>"

text \<open>The f-string \<open>f'attachment; filename="{file.name}"'\<close>; \<open>CHR 0x22\<close> is the double quote.\<close>

definition content_disposition :: "string \<Rightarrow> string" where
  "content_disposition n = ''attachment; filename='' @ [CHR 0x22] @ n @ [CHR 0x22]"

text \<open>
  The two views that serve a stored file. An exception of the lookup, of the construction
  of the response or of the header assignment leaves the view as \<open>Inl\<close>.
\<close>

definition download_file :: "store \<Rightarrow> int \<Rightarrow> error + http_response" where
  "download_file s file_id' =
     (case get_object_or_404 s file_id' of
        Inl e \<Rightarrow> Inl e
      | Inr file \<Rightarrow>
          (case HttpResponse (file_content file) (file_content_type file) of
             Inl e \<Rightarrow> Inl e
           | Inr response \<Rightarrow>
               set_header ''Content-Disposition'' (content_disposition (file_name file)) response))"

definition display_image :: "store \<Rightarrow> int \<Rightarrow> error + http_response" where
  "display_image s file_id' =
     (case get_object_or_404 s file_id' of
        Inl e \<Rightarrow> Inl e
      | Inr file \<Rightarrow> HttpResponse (file_content file) (file_content_type file))"

text \<open>
  What \<open>upload_file\<close> returns: a redirect to a named route (status 302), or the template
  rendered with the context \<open>{'form': form, 'files': files}\<close> (status 200). The last two
  lines of the view, shared by the GET path and the invalid POST path, are \<open>render_upload\<close>.
\<close>

datatype page = Redirect string | Render string form "File list"

fun page_status :: "page \<Rightarrow> nat" where
  "page_status (Redirect _) = 302"
| "page_status (Render _ _ _) = 200"

text \<open>
  Of the request, the view reads \<open>request.method\<close> (the field \<open>request_method\<close>) and the
  uploaded file under the key \<open>file\<close> of \<open>request.FILES\<close>, if there is one.
\<close>

record request =
  request_method :: string
  FILES :: "uploaded_file option"

text \<open>
  The state a request works on: the table and the queue of one-time messages.
  \<open>upload_file\<close> returns the response and the new state; an uncaught exception is \<open>Inl\<close>.
\<close>

record world =
  db :: store
  messages :: "string list"

definition render_upload :: "form \<Rightarrow> world \<Rightarrow> error + (page \<times> world)" where
  "render_upload form w = Inr (Render ''file_manager/upload.html'' form (recent_files (db w)), w)"

definition upload_file ::
    "(uploaded_file option \<Rightarrow> string + uploaded_file) \<Rightarrow> timestamp \<Rightarrow> request \<Rightarrow> world
       \<Rightarrow> error + (page \<times> world)" where
  "upload_file field_clean now req w =
     (if request_method req = ''POST''
      then (let form = FileUploadForm field_clean (FILES req)
            in if is_valid form
               then (case cleaned_data form of
                       None \<Rightarrow> Inl KeyError
                     | Some uploaded \<Rightarrow>
                         (let (obj, db') = objects_create now (name uploaded) (data uploaded)
                                             (content_type uploaded) (db w)
                          in Inr (Redirect ''upload_file'',
                                  w\<lparr>db := db',
                                    messages := messages w @ [''File uploaded successfully!'']\<rparr>)))
               else render_upload form w)
      else render_upload FileUploadForm_unbound w)"

text \<open>Seven calls of \<open>File.objects.create\<close> in a row, and in general any number of them.\<close>

fun create_all :: "(timestamp \<times> string \<times> bytes \<times> string) list \<Rightarrow> store \<Rightarrow> File list \<times> store" where
  "create_all [] s = ([], s)"
| "create_all ((now, n, c, ct) # args) s =
     (let (obj, s') = objects_create now n c ct s;
          (objs, s'') = create_all args s'
      in (obj # objs, s''))"

text \<open>
  The upload view creates a row only from a payload that \<open>clean_file\<close> returned, so the
  content type of every row it created is one of the allowed types.
\<close>

definition rows_validated :: "store \<Rightarrow> bool" where
  "rows_validated s = list_all (\<lambda>r. file_content_type r \<in> set ALLOWED_IMAGE_TYPES) (rows s)"

section \<open>Properties of the validation\<close>

lemma MAX_FILE_SIZE_value: "MAX_FILE_SIZE = 5242880"
  by (simp add: MAX_FILE_SIZE_def)

lemma size_limit_text: "str_int (MAX_FILE_SIZE div (1024 * 1024)) = ''5''"
  by (simp add: MAX_FILE_SIZE_def str_int_def digit_char_def)

lemma size_message:
  "''File size exceeds the limit of '' @ str_int (MAX_FILE_SIZE div (1024 * 1024)) @ '' MB.''
     = ''File size exceeds the limit of 5 MB.''"
  unfolding size_limit_text by simp

lemma allowed_types_set:
  "set ALLOWED_IMAGE_TYPES = {''image/jpeg'', ''image/png'', ''image/gif''}"
  by (simp add: ALLOWED_IMAGE_TYPES_def)



text \<open>
  C2. A payload with an allowed content type and a byte size strictly above
  5,242,880 = 5 * 1024 * 1024 is rejected with "File size exceeds the limit of 5 MB.".
\<close>

theorem clean_file_rejects_size:
  assumes "content_type uploaded \<in> {''image/jpeg'', ''image/png'', ''image/gif''}"
    and "size uploaded > 5242880"
  shows "clean_file uploaded = Inl ''File size exceeds the limit of 5 MB.''
         \<and> (5242880 :: int) = 5 * 1024 * 1024"
proof -
  from assms(1) have "content_type uploaded \<in> set ALLOWED_IMAGE_TYPES"
    by (simp only: allowed_types_set)
  moreover from assms(2) have "size uploaded > MAX_FILE_SIZE"
    by (simp add: MAX_FILE_SIZE_value)
  ultimately have "clean_file uploaded
      = Inl (''File size exceeds the limit of '' @ str_int (MAX_FILE_SIZE div (1024 * 1024)) @ '' MB.'')"
    by (simp add: clean_file_def)
  then show ?thesis by (simp only: size_message) simp
qed

theorem clean_file_rejects_size_witness:
  "''image/png'' \<in> {''image/jpeg'', ''image/png'', ''image/gif''} \<and> (5242881 :: int) > 5242880
   \<and> clean_file \<lparr>name = ''a.png'', content_type = ''image/png'', size = 5242881, data = []\<rparr>
       = Inl ''File size exceeds the limit of 5 MB.''"
  using clean_file_rejects_size
          [of "\<lparr>name = ''a.png'', content_type = ''image/png'', size = 5242881, data = []\<rparr>"]
  by simp

lemma clean_file_within_limits:
  assumes "content_type uploaded \<in> {''image/jpeg'', ''image/png'', ''image/gif''}"
    and "size uploaded \<le> 5242880"
  shows "clean_file uploaded = Inr uploaded"
  using assms by (simp add: clean_file_def allowed_types_set MAX_FILE_SIZE_value)

text \<open>
  C3 (as amended). A payload with an allowed content type, a non-empty file name and a byte
  size that is not zero and at most 5,242,880 is accepted: \<open>clean_file\<close> returns it, and
  the form with the framework's file field is valid, with no error and the payload as its
  cleaned data. For a size of zero the claim as first stated fails: the file field rejects
  the payload before \<open>clean_file\<close> runs.
\<close>

theorem FileUploadForm_accepts:
  assumes "content_type uploaded \<in> {''image/jpeg'', ''image/png'', ''image/gif''}"
    and "size uploaded \<le> 5242880"
    and "size uploaded \<noteq> 0"
    and "name uploaded \<noteq> []"
  shows "clean_file uploaded = Inr uploaded
         \<and> FileUploadForm FileField_clean (Some uploaded)
             = \<lparr>is_bound = True, errors = [], cleaned_data = Some uploaded\<rparr>
         \<and> is_valid (FileUploadForm FileField_clean (Some uploaded))"
proof -
  from assms(1,2) have ok: "clean_file uploaded = Inr uploaded"
    by (rule clean_file_within_limits)
  from assms(3,4) have "FileField_clean (Some uploaded) = Inr uploaded"
    by (simp add: FileField_clean_def)
  with ok show ?thesis by (simp add: FileUploadForm_def is_valid_def)
qed

theorem FileUploadForm_accepts_witness:
  "''image/gif'' \<in> {''image/jpeg'', ''image/png'', ''image/gif''}
   \<and> (5242880 :: int) \<le> 5242880 \<and> (5242880 :: int) \<noteq> 0 \<and> ''a.gif'' \<noteq> []
   \<and> clean_file \<lparr>name = ''a.gif'', content_type = ''image/gif'', size = 5242880, data = []\<rparr>
       = Inr \<lparr>name = ''a.gif'', content_type = ''image/gif'', size = 5242880, data = []\<rparr>
   \<and> FileUploadForm FileField_clean
        (Some \<lparr>name = ''a.gif'', content_type = ''image/gif'', size = 5242880, data = []\<rparr>)
       = \<lparr>is_bound = True, errors = [],
          cleaned_data = Some \<lparr>name = ''a.gif'', content_type = ''image/gif'', size = 5242880,
                                 data = []\<rparr>\<rparr>
   \<and> is_valid (FileUploadForm FileField_clean
        (Some \<lparr>name = ''a.gif'', content_type = ''image/gif'', size = 5242880, data = []\<rparr>))"
  using FileUploadForm_accepts
          [of "\<lparr>name = ''a.gif'', content_type = ''image/gif'', size = 5242880, data = []\<rparr>"]
  by (simp add: is_valid_def)

text \<open>
  An image/png payload of zero bytes satisfies the type and size policies, yet the form is
  not valid: the file field answers "The submitted file is empty." and the upload view
  renders the page again without creating a row.
\<close>

theorem FileUploadForm_rejects_empty_file:
  "content_type \<lparr>name = ''a.png'', content_type = ''image/png'', size = 0, data = []\<rparr>
     \<in> {''image/jpeg'', ''image/png'', ''image/gif''}
   \<and> size \<lparr>name = ''a.png'', content_type = ''image/png'', size = 0, data = []\<rparr> \<le> 5242880
   \<and> FileUploadForm FileField_clean
        (Some \<lparr>name = ''a.png'', content_type = ''image/png'', size = 0, data = []\<rparr>)
       = \<lparr>is_bound = True, errors = [''The submitted file is empty.''], cleaned_data = None\<rparr>
   \<and> \<not> is_valid (FileUploadForm FileField_clean
        (Some \<lparr>name = ''a.png'', content_type = ''image/png'', size = 0, data = []\<rparr>))
   \<and> upload_file FileField_clean 100
        \<lparr>request_method = ''POST'',
          FILES = Some \<lparr>name = ''a.png'', content_type = ''image/png'', size = 0, data = []\<rparr>\<rparr>
        \<lparr>db = empty_store, messages = []\<rparr>
       = Inr (Render ''file_manager/upload.html''
                \<lparr>is_bound = True, errors = [''The submitted file is empty.''], cleaned_data = None\<rparr>
                [],
              \<lparr>db = empty_store, messages = []\<rparr>)"
  by (simp add: FileUploadForm_def FileField_clean_def is_valid_def upload_file_def
        render_upload_def recent_files_def order_by_minus_id_def empty_store_def)

text \<open>
  C4. A payload that violates both policies (type not allowed and size above 5,242,880) is
  rejected with the type message: the type check runs first and its error is the only one
  reported; the size message is not.
\<close>

theorem clean_file_type_before_size:
  assumes "content_type uploaded \<notin> {''image/jpeg'', ''image/png'', ''image/gif''}"
    and "size uploaded > 5242880"
  shows "clean_file uploaded = Inl ''Invalid file type. Only image files are allowed.''
         \<and> clean_file uploaded \<noteq> Inl ''File size exceeds the limit of 5 MB.''"
  using assms by (simp add: clean_file_def allowed_types_set)

theorem clean_file_type_before_size_witness:
  "''text/plain'' \<notin> {''image/jpeg'', ''image/png'', ''image/gif''} \<and> (9999999 :: int) > 5242880
   \<and> clean_file \<lparr>name = ''big.txt'', content_type = ''text/plain'', size = 9999999, data = []\<rparr>
       = Inl ''Invalid file type. Only image files are allowed.''
   \<and> clean_file \<lparr>name = ''big.txt'', content_type = ''text/plain'', size = 9999999, data = []\<rparr>
       \<noteq> Inl ''File size exceeds the limit of 5 MB.''"
  using clean_file_type_before_size
          [of "\<lparr>name = ''big.txt'', content_type = ''text/plain'', size = 9999999, data = []\<rparr>"]
  by simp

section \<open>Properties of the table\<close>

lemma store_ok_empty: "store_ok empty_store"
  by (simp add: store_ok_def empty_store_def)

lemma objects_create_eq:
  "objects_create now n c ct s = (obj, s') \<Longrightarrow>
     obj = \<lparr>file_id = next_id s, file_name = n, file_content = c,
             file_content_type = ct, uploaded_at = Some now\<rparr>
     \<and> rows s' = rows s @ [obj] \<and> next_id s' = next_id s + 1"
  by (auto simp: objects_create_def Let_def)

lemma store_ok_snoc:
  assumes "store_ok s" and "rows s' = rows s @ [obj]" and "file_id obj = next_id s"
    and "next_id s' = next_id s + 1"
  shows "store_ok s'"
proof -
  from assms(1) have srt: "sorted_wrt (<) (map file_id (rows s))"
    and below: "\<forall>r\<in>set (rows s). file_id r < next_id s"
    by (simp_all add: store_ok_def list_all_iff)
  from srt below assms(3) have "sorted_wrt (<) (map file_id (rows s @ [obj]))"
    by (simp add: sorted_wrt_append)
  moreover from below assms(3) have "\<forall>r\<in>set (rows s @ [obj]). file_id r < next_id s + 1"
    by auto
  ultimately show ?thesis
    using assms(2,4) by (simp add: store_ok_def list_all_iff)
qed

lemma store_ok_create:
  assumes "store_ok s" and "objects_create now n c ct s = (obj, s')"
  shows "store_ok s'"
proof -
  from objects_create_eq [OF assms(2)]
  have "rows s' = rows s @ [obj]" "file_id obj = next_id s" "next_id s' = next_id s + 1"
    by simp_all
  with assms(1) show ?thesis by (rule store_ok_snoc)
qed

lemma filter_unique:
  "distinct (map f xs) \<Longrightarrow> r \<in> set xs \<Longrightarrow> filter (\<lambda>x. f x = f r) xs = [r]"
proof (induction xs)
  case Nil then show ?case by simp
next
  case (Cons a xs)
  show ?case
  proof (cases "a = r")
    case True
    with Cons.prems have "f r \<notin> f ` set xs" by simp
    then have "\<forall>x\<in>set xs. f x \<noteq> f r" by (metis imageI)
    then have "filter (\<lambda>x. f x = f r) xs = []" by (simp add: filter_empty_conv)
    with True show ?thesis by simp
  next
    case False
    with Cons.prems have "r \<in> set xs" by simp
    with Cons.prems have "f a \<noteq> f r" by force
    with Cons \<open>r \<in> set xs\<close> show ?thesis by simp
  qed
qed

lemma store_ok_distinct: "store_ok s \<Longrightarrow> distinct (map file_id (rows s))"
  by (simp add: store_ok_def strict_sorted_iff)

lemma objects_get_present:
  "store_ok s \<Longrightarrow> r \<in> set (rows s) \<Longrightarrow> objects_get s (file_id r) = Inr r"
  by (simp add: objects_get_def filter_unique store_ok_distinct)

lemma objects_get_absent:
  assumes "i \<notin> file_id ` set (rows s)"
  shows "objects_get s i = Inl DoesNotExist"
proof -
  from assms have "\<forall>r\<in>set (rows s). file_id r \<noteq> i" by force
  then have "filter (\<lambda>r. file_id r = i) (rows s) = []" by (simp add: filter_empty_conv)
  then show ?thesis by (simp add: objects_get_def)
qed

lemma order_by_minus_id_ok: "store_ok s \<Longrightarrow> order_by_minus_id (rows s) = rev (rows s)"
  by (simp add: order_by_minus_id_def store_ok_def sort_key_id_if_sorted strict_sorted_imp_sorted)


lemma get_object_or_404_present:
  "store_ok s \<Longrightarrow> r \<in> set (rows s) \<Longrightarrow> get_object_or_404 s (file_id r) = Inr r"
  by (simp add: get_object_or_404_def objects_get_present)

lemma get_object_or_404_absent:
  "i \<notin> file_id ` set (rows s) \<Longrightarrow> get_object_or_404 s i = Inl Http404"
  by (simp add: get_object_or_404_def objects_get_absent)

lemma create_all_rows:
  "create_all args s = (objs, s') \<Longrightarrow> rows s' = rows s @ objs \<and> length objs = length args"
proof (induction args arbitrary: s objs s')
  case Nil
  then show ?case by simp
next
  case (Cons a args)
  obtain now n c ct where a: "a = (now, n, c, ct)" by (cases a)
  obtain obj s1 where c1: "objects_create now n c ct s = (obj, s1)"
    by (cases "objects_create now n c ct s")
  obtain objs1 s2 where c2: "create_all args s1 = (objs1, s2)"
    by (cases "create_all args s1")
  from Cons.prems a c1 c2 have res: "objs = obj # objs1" "s' = s2" by simp_all
  from Cons.IH [OF c2] have "rows s2 = rows s1 @ objs1" "length objs1 = length args" by simp_all
  moreover from objects_create_eq [OF c1] have "rows s1 = rows s @ [obj]" by simp
  ultimately show ?case using res by simp
qed

lemma create_all_ok:
  "store_ok s \<Longrightarrow> create_all args s = (objs, s') \<Longrightarrow> store_ok s'"
proof (induction args arbitrary: s objs s')
  case Nil
  then show ?case by simp
next
  case (Cons a args)
  obtain now n c ct where a: "a = (now, n, c, ct)" by (cases a)
  obtain obj s1 where c1: "objects_create now n c ct s = (obj, s1)"
    by (cases "objects_create now n c ct s")
  obtain objs1 s2 where c2: "create_all args s1 = (objs1, s2)"
    by (cases "create_all args s1")
  from Cons.prems(2) a c1 c2 have res: "s' = s2" by simp
  from Cons.prems(1) c1 have "store_ok s1" by (rule store_ok_create)
  then have "store_ok s2" using c2 by (rule Cons.IH)
  with res show ?case by simp
qed

text \<open>
  C5. From every state of the table, creating a File with a name, a content and a content
  type and then fetching by the id of the created row returns a row with that name, content
  and content type, whose \<open>uploaded_at\<close> is set (not null).
\<close>

theorem insert_then_fetch:
  assumes "store_ok s" and "objects_create now n c ct s = (obj, s')"
  shows "\<exists>r. get_object_or_404 s' (file_id obj) = Inr r \<and> file_name r = n \<and> file_content r = c
           \<and> file_content_type r = ct \<and> uploaded_at r = Some now \<and> uploaded_at r \<noteq> None"
proof -
  from objects_create_eq [OF assms(2)]
  have obj: "obj = \<lparr>file_id = next_id s, file_name = n, file_content = c,
                     file_content_type = ct, uploaded_at = Some now\<rparr>"
    and rows: "rows s' = rows s @ [obj]" by simp_all
  from assms have "store_ok s'" by (rule store_ok_create)
  moreover from rows have "obj \<in> set (rows s')" by simp
  ultimately have "get_object_or_404 s' (file_id obj) = Inr obj"
    by (rule get_object_or_404_present)
  moreover from obj have "file_name obj = n" "file_content obj = c" "file_content_type obj = ct"
    "uploaded_at obj = Some now" by simp_all
  ultimately show ?thesis by simp
qed

theorem insert_then_fetch_witness:
  "store_ok empty_store
   \<and> objects_create 1731929340 ''a.png'' [137, 80, 78, 71] ''image/png'' empty_store
       = (\<lparr>file_id = 1, file_name = ''a.png'', file_content = [137, 80, 78, 71],
            file_content_type = ''image/png'', uploaded_at = Some 1731929340\<rparr>,
          \<lparr>rows = [\<lparr>file_id = 1, file_name = ''a.png'', file_content = [137, 80, 78, 71],
                     file_content_type = ''image/png'', uploaded_at = Some 1731929340\<rparr>],
            next_id = 2\<rparr>)
   \<and> (\<exists>r. get_object_or_404
              \<lparr>rows = [\<lparr>file_id = 1, file_name = ''a.png'', file_content = [137, 80, 78, 71],
                         file_content_type = ''image/png'', uploaded_at = Some 1731929340\<rparr>],
                next_id = 2\<rparr> 1 = Inr r
          \<and> file_name r = ''a.png'' \<and> file_content r = [137, 80, 78, 71]
          \<and> file_content_type r = ''image/png'' \<and> uploaded_at r = Some 1731929340
          \<and> uploaded_at r \<noteq> None)"
proof -
  have ok: "store_ok empty_store" by (simp add: store_ok_def empty_store_def)
  have cr: "objects_create 1731929340 ''a.png'' [137, 80, 78, 71] ''image/png'' empty_store
       = (\<lparr>file_id = 1, file_name = ''a.png'', file_content = [137, 80, 78, 71],
            file_content_type = ''image/png'', uploaded_at = Some 1731929340\<rparr>,
          \<lparr>rows = [\<lparr>file_id = 1, file_name = ''a.png'', file_content = [137, 80, 78, 71],
                     file_content_type = ''image/png'', uploaded_at = Some 1731929340\<rparr>],
            next_id = 2\<rparr>)"
    by (simp add: objects_create_def empty_store_def Let_def)
  from insert_then_fetch [OF ok cr] ok cr show ?thesis by simp
qed

text \<open>
  C6. After seven rows have been created, the listing of the upload page
  (\<open>order_by('-id')[:5]\<close>) is exactly the five rows created last, newest first: its ids are
  strictly descending, which is the reverse of the insertion order.
\<close>

theorem recent_files_after_seven:
  assumes "store_ok s" and "length args = 7" and "create_all args s = (objs, s')"
  shows "recent_files s' = rev (drop 2 objs) \<and> length (recent_files s') = 5
         \<and> sorted_wrt (>) (map file_id (recent_files s'))"
proof -
  from create_all_rows [OF assms(3)] assms(2)
  have rows: "rows s' = rows s @ objs" and len: "length objs = 7" by simp_all
  from assms(1,3) have ok: "store_ok s'" by (rule create_all_ok)
  then have "order_by_minus_id (rows s') = rev (rows s')"
    by (rule order_by_minus_id_ok)
  with rows have "order_by_minus_id (rows s') = rev objs @ rev (rows s)"
    by simp
  with len have "recent_files s' = take 5 (rev objs)"
    by (simp add: recent_files_def)
  also from len have "\<dots> = rev (drop 2 objs)" by (simp add: take_rev)
  finally have eq: "recent_files s' = rev (drop 2 objs)" .
  from ok rows have "sorted_wrt (<) (map file_id objs)"
    by (simp add: store_ok_def sorted_wrt_append)
  then have "sorted_wrt (<) (drop 2 (map file_id objs))" by (rule sorted_wrt_drop)
  then have "sorted_wrt (>) (rev (drop 2 (map file_id objs)))"
    by (simp add: sorted_wrt_rev)
  with eq len show ?thesis by (simp add: rev_map drop_map)
qed

theorem recent_files_after_seven_witness:
  "store_ok empty_store
   \<and> length [(100, ''a.png'', [1], ''image/png''), (101, ''b.png'', [2], ''image/png''),
              (102, ''c.gif'', [3], ''image/gif''), (103, ''d.png'', [4], ''image/png''),
              (104, ''e.jpg'', [5], ''image/jpeg''), (105, ''f.png'', [6], ''image/png''),
              (106 :: timestamp, ''g.png'', [7 :: 8 word], ''image/png'')] = 7
   \<and> map file_id (recent_files (snd (create_all
             [(100, ''a.png'', [1], ''image/png''), (101, ''b.png'', [2], ''image/png''),
              (102, ''c.gif'', [3], ''image/gif''), (103, ''d.png'', [4], ''image/png''),
              (104, ''e.jpg'', [5], ''image/jpeg''), (105, ''f.png'', [6], ''image/png''),
              (106, ''g.png'', [7], ''image/png'')] empty_store))) = [7, 6, 5, 4, 3]
   \<and> map file_name (recent_files (snd (create_all
             [(100, ''a.png'', [1], ''image/png''), (101, ''b.png'', [2], ''image/png''),
              (102, ''c.gif'', [3], ''image/gif''), (103, ''d.png'', [4], ''image/png''),
              (104, ''e.jpg'', [5], ''image/jpeg''), (105, ''f.png'', [6], ''image/png''),
              (106, ''g.png'', [7], ''image/png'')] empty_store)))
       = [''g.png'', ''f.png'', ''e.jpg'', ''d.png'', ''c.gif'']"
proof -
  let ?args = "[(100, ''a.png'', [1], ''image/png''), (101, ''b.png'', [2], ''image/png''),
              (102, ''c.gif'', [3], ''image/gif''), (103, ''d.png'', [4], ''image/png''),
              (104, ''e.jpg'', [5], ''image/jpeg''), (105, ''f.png'', [6], ''image/png''),
              (106 :: timestamp, ''g.png'', [7 :: 8 word], ''image/png'')]"
  have ok: "store_ok empty_store" by (simp add: store_ok_def empty_store_def)
  have len: "length ?args = 7" by simp
  have run: "create_all ?args empty_store
               = (fst (create_all ?args empty_store), snd (create_all ?args empty_store))"
    by simp
  have objs: "map file_id (fst (create_all ?args empty_store)) = [1, 2, 3, 4, 5, 6, 7]"
    "map file_name (fst (create_all ?args empty_store))
       = [''a.png'', ''b.png'', ''c.gif'', ''d.png'', ''e.jpg'', ''f.png'', ''g.png'']"
    by (simp_all add: objects_create_def empty_store_def Let_def)
  from recent_files_after_seven [OF ok len run]
  have "recent_files (snd (create_all ?args empty_store))
          = rev (drop 2 (fst (create_all ?args empty_store)))" by simp
  then have "map file_id (recent_files (snd (create_all ?args empty_store)))
               = rev (drop 2 (map file_id (fst (create_all ?args empty_store))))"
    "map file_name (recent_files (snd (create_all ?args empty_store)))
               = rev (drop 2 (map file_name (fst (create_all ?args empty_store))))"
    by (simp_all only: rev_map drop_map)
  with objs ok len show ?thesis by simp
qed

section \<open>Properties of the upload view\<close>

lemma FileUploadForm_rejected:
  assumes "field_clean d = Inl reason \<or> (\<exists>f. field_clean d = Inr f \<and> clean_file f = Inl reason)"
  shows "FileUploadForm field_clean d = \<lparr>is_bound = True, errors = [reason], cleaned_data = None\<rparr>"
  using assms by (auto simp: FileUploadForm_def)

lemma FileUploadForm_accepted:
  assumes "field_clean d = Inr f" and "clean_file f = Inr f'"
  shows "FileUploadForm field_clean d = \<lparr>is_bound = True, errors = [], cleaned_data = Some f'\<rparr>"
  using assms by (simp add: FileUploadForm_def)

lemma FileUploadForm_invalid_iff:
  "(\<not> is_valid (FileUploadForm field_clean d))
     = (\<exists>reason. field_clean d = Inl reason
                 \<or> (\<exists>f. field_clean d = Inr f \<and> clean_file f = Inl reason))"
proof (cases "field_clean d")
  case (Inl e)
  then show ?thesis by (simp add: FileUploadForm_def is_valid_def)
next
  case (Inr f)
  then show ?thesis
    by (cases "clean_file f") (simp_all add: FileUploadForm_def is_valid_def)
qed

lemma upload_file_accepted:
  assumes "request_method req = ''POST''" and "field_clean (FILES req) = Inr f" and "clean_file f = Inr f'"
  shows "upload_file field_clean now req w
           = Inr (Redirect ''upload_file'',
                  w\<lparr>db := snd (objects_create now (name f') (data f') (content_type f') (db w)),
                    messages := messages w @ [''File uploaded successfully!'']\<rparr>)"
  using assms
  by (simp add: upload_file_def FileUploadForm_accepted is_valid_def split: prod.splits)

lemma upload_file_keeps_store_ok:
  assumes "store_ok (db w)" and "upload_file field_clean now req w = Inr (page, w')"
  shows "store_ok (db w')"
proof (cases "request_method req = ''POST'' \<and> is_valid (FileUploadForm field_clean (FILES req))")
  case False
  with assms(2) have "w' = w"
    by (auto simp: upload_file_def render_upload_def Let_def split: if_splits)
  with assms(1) show ?thesis by simp
next
  case True
  with assms(2) obtain up where up: "cleaned_data (FileUploadForm field_clean (FILES req)) = Some up"
    by (cases "cleaned_data (FileUploadForm field_clean (FILES req))")
       (simp_all add: upload_file_def Let_def)
  obtain obj s1 where cr: "objects_create now (name up) (data up) (content_type up) (db w) = (obj, s1)"
    by (cases "objects_create now (name up) (data up) (content_type up) (db w)")
  from True up cr assms(2) have "db w' = s1"
    by (auto simp: upload_file_def Let_def)
  moreover from assms(1) cr have "store_ok s1" by (rule store_ok_create)
  ultimately show ?thesis by simp
qed

text \<open>
  C9. When a POST is rejected by the validation (the field's own check or \<open>clean_file\<close>
  raises with some reason), no row is created: the state, and with it the table and the
  listing, is unchanged. The answer is the upload page rendered again with the bound form
  that carries the reason as its error, with status 200; it is not a redirect.
\<close>

theorem upload_file_rejected:
  assumes "request_method req = ''POST''"
    and "field_clean (FILES req) = Inl reason
         \<or> (\<exists>f. field_clean (FILES req) = Inr f \<and> clean_file f = Inl reason)"
  shows "upload_file field_clean now req w
           = Inr (Render ''file_manager/upload.html''
                    \<lparr>is_bound = True, errors = [reason], cleaned_data = None\<rparr>
                    (recent_files (db w)), w)
         \<and> page_status (Render ''file_manager/upload.html''
                    \<lparr>is_bound = True, errors = [reason], cleaned_data = None\<rparr>
                    (recent_files (db w))) = 200
         \<and> Render ''file_manager/upload.html''
                    \<lparr>is_bound = True, errors = [reason], cleaned_data = None\<rparr>
                    (recent_files (db w)) \<noteq> Redirect ''upload_file''"
proof -
  from assms(2)
  have "FileUploadForm field_clean (FILES req)
          = \<lparr>is_bound = True, errors = [reason], cleaned_data = None\<rparr>"
    by (rule FileUploadForm_rejected)
  with assms(1) show ?thesis
    by (simp add: upload_file_def render_upload_def is_valid_def)
qed

theorem upload_file_rejected_witness:
  "clean_file \<lparr>name = ''doc.pdf'', content_type = ''application/pdf'', size = 4, data = [37, 80, 68, 70]\<rparr>
     = Inl ''Invalid file type. Only image files are allowed.''
   \<and> upload_file (\<lambda>d. case d of None \<Rightarrow> Inl ''This field is required.'' | Some f \<Rightarrow> Inr f) 100
        \<lparr>request_method = ''POST'',
          FILES = Some \<lparr>name = ''doc.pdf'', content_type = ''application/pdf'', size = 4,
                         data = [37, 80, 68, 70]\<rparr>\<rparr>
        \<lparr>db = empty_store, messages = []\<rparr>
       = Inr (Render ''file_manager/upload.html''
                \<lparr>is_bound = True, errors = [''Invalid file type. Only image files are allowed.''],
                  cleaned_data = None\<rparr> [],
              \<lparr>db = empty_store, messages = []\<rparr>)
   \<and> upload_file (\<lambda>d. case d of None \<Rightarrow> Inl ''This field is required.'' | Some f \<Rightarrow> Inr f) 100
        \<lparr>request_method = ''POST'', FILES = None\<rparr> \<lparr>db = empty_store, messages = []\<rparr>
       = Inr (Render ''file_manager/upload.html''
                \<lparr>is_bound = True, errors = [''This field is required.''], cleaned_data = None\<rparr> [],
              \<lparr>db = empty_store, messages = []\<rparr>)"
proof -
  let ?fc = "\<lambda>d :: uploaded_file option. case d of None \<Rightarrow> Inl ''This field is required.'' | Some f \<Rightarrow> Inr f"
  let ?pdf = "\<lparr>name = ''doc.pdf'', content_type = ''application/pdf'', size = 4, data = [37, 80, 68, 70]\<rparr>"
  let ?w = "\<lparr>db = empty_store, messages = []\<rparr>"
  have rej: "clean_file ?pdf = Inl ''Invalid file type. Only image files are allowed.''"
    by (simp add: clean_file_def ALLOWED_IMAGE_TYPES_def)
  have post: "request_method \<lparr>request_method = ''POST'', FILES = Some ?pdf\<rparr> = ''POST''"
    "request_method \<lparr>request_method = ''POST'', FILES = None\<rparr> = ''POST''" by simp_all
  have h1: "?fc (FILES \<lparr>request_method = ''POST'', FILES = Some ?pdf\<rparr>)
              = Inl ''Invalid file type. Only image files are allowed.''
            \<or> (\<exists>f. ?fc (FILES \<lparr>request_method = ''POST'', FILES = Some ?pdf\<rparr>) = Inr f
                   \<and> clean_file f = Inl ''Invalid file type. Only image files are allowed.'')"
    using rej by simp
  have h2: "?fc (FILES \<lparr>request_method = ''POST'', FILES = None\<rparr>) = Inl ''This field is required.''
            \<or> (\<exists>f. ?fc (FILES \<lparr>request_method = ''POST'', FILES = None\<rparr>) = Inr f
                   \<and> clean_file f = Inl ''This field is required.'')"
    by simp
  have lst: "recent_files (db ?w) = []"
    by (simp add: recent_files_def order_by_minus_id_def empty_store_def)
  note upload_file_rejected
         [where field_clean = ?fc and req = "\<lparr>request_method = ''POST'', FILES = Some ?pdf\<rparr>"
            and reason = "''Invalid file type. Only image files are allowed.''"
            and now = 100 and w = ?w, OF post(1) h1]
       upload_file_rejected
         [where field_clean = ?fc and req = "\<lparr>request_method = ''POST'', FILES = None\<rparr>"
            and reason = "''This field is required.''" and now = 100 and w = ?w, OF post(2) h2]
  with rej lst
  show ?thesis by simp
qed

section \<open>Properties of the file views\<close>

lemma convert_name_consts:
  "convert_name ''Content-Type'' = Inr ''Content-Type''"
  "convert_name ''Content-Disposition'' = Inr ''Content-Disposition''"
  by (simp_all add: convert_name_def has_newline_def encodes_ascii_def)

lemma lower_consts:
  "lower ''Content-Type'' = ''content-type''"
  "lower ''Content-Disposition'' = ''content-disposition''"
  by (simp_all add: lower_def ascii_lower_def)

lemma allowed_type_plain:
  assumes "ct \<in> set ALLOWED_IMAGE_TYPES"
  shows "\<not> has_newline ct \<and> encodes_latin1 ct"
proof -
  from assms have "ct = ''image/jpeg'' \<or> ct = ''image/png'' \<or> ct = ''image/gif''"
    by (simp add: ALLOWED_IMAGE_TYPES_def)
  then show ?thesis
    by (elim disjE) (simp_all add: has_newline_def encodes_latin1_def)
qed

lemma has_newline_content_disposition: "has_newline (content_disposition n) = has_newline n"
  by (simp add: has_newline_def content_disposition_def)

lemma encodes_latin1_content_disposition:
  "encodes_latin1 (content_disposition n) = encodes_latin1 n"
  by (simp add: encodes_latin1_def content_disposition_def)

lemma HttpResponse_newline: "has_newline ct \<Longrightarrow> HttpResponse c ct = Inl BadHeaderError"
  by (simp add: HttpResponse_def set_header_def convert_name_consts convert_value_def)

lemma HttpResponse_value:
  "\<not> has_newline ct \<Longrightarrow>
     HttpResponse c ct
       = Inr \<lparr>status = 200,
              headers = [(''content-type'', ''Content-Type'',
                          if encodes_latin1 ct then Plain ct else MimeEncoded ct)],
              body = c\<rparr>"
  by (simp add: HttpResponse_def set_header_def convert_name_consts convert_value_def lower_consts)

lemma set_content_disposition:
  "set_header ''Content-Disposition'' (content_disposition n)
       \<lparr>status = st, headers = [(''content-type'', ''Content-Type'', ctv)], body = c\<rparr>
     = (if has_newline n then Inl BadHeaderError
        else Inr \<lparr>status = st,
                  headers = [(''content-type'', ''Content-Type'', ctv),
                             (''content-disposition'', ''Content-Disposition'',
                              if encodes_latin1 n then Plain (content_disposition n)
                              else MimeEncoded (content_disposition n))],
                  body = c\<rparr>)"
  by (simp add: set_header_def convert_name_consts convert_value_def lower_consts
        has_newline_content_disposition encodes_latin1_content_disposition)

lemma download_file_row:
  assumes "store_ok s" and "r \<in> set (rows s)"
  shows "download_file s (file_id r)
           = (if has_newline (file_content_type r) \<or> has_newline (file_name r)
              then Inl BadHeaderError
              else Inr \<lparr>status = 200,
                        headers = [(''content-type'', ''Content-Type'',
                                    if encodes_latin1 (file_content_type r)
                                    then Plain (file_content_type r)
                                    else MimeEncoded (file_content_type r)),
                                   (''content-disposition'', ''Content-Disposition'',
                                    if encodes_latin1 (file_name r)
                                    then Plain (content_disposition (file_name r))
                                    else MimeEncoded (content_disposition (file_name r)))],
                        body = file_content r\<rparr>)"
proof (cases "has_newline (file_content_type r)")
  case True
  with assms show ?thesis
    by (simp add: download_file_def get_object_or_404_present HttpResponse_newline)
next
  case False
  with assms show ?thesis
    by (simp add: download_file_def get_object_or_404_present HttpResponse_value
          set_content_disposition)
qed

lemma display_image_row:
  assumes "store_ok s" and "r \<in> set (rows s)"
  shows "display_image s (file_id r)
           = (if has_newline (file_content_type r) then Inl BadHeaderError
              else Inr \<lparr>status = 200,
                        headers = [(''content-type'', ''Content-Type'',
                                    if encodes_latin1 (file_content_type r)
                                    then Plain (file_content_type r)
                                    else MimeEncoded (file_content_type r))],
                        body = file_content r\<rparr>)"
proof (cases "has_newline (file_content_type r)")
  case True
  with assms show ?thesis
    by (simp add: display_image_def get_object_or_404_present HttpResponse_newline)
next
  case False
  with assms show ?thesis
    by (simp add: display_image_def get_object_or_404_present HttpResponse_value)
qed

lemma rows_validated_empty: "rows_validated empty_store"
  by (simp add: rows_validated_def empty_store_def)

lemma clean_file_returns_allowed:
  "clean_file v = Inr v' \<Longrightarrow> content_type v' \<in> set ALLOWED_IMAGE_TYPES"
  by (auto simp: clean_file_def split: if_splits)

lemma cleaned_data_allowed:
  assumes "cleaned_data (FileUploadForm field_clean d) = Some up"
  shows "content_type up \<in> set ALLOWED_IMAGE_TYPES"
proof (cases "field_clean d")
  case (Inl e)
  with assms show ?thesis by (simp add: FileUploadForm_def)
next
  case (Inr v)
  show ?thesis
  proof (cases "clean_file v")
    case (Inl e)
    with Inr assms show ?thesis by (simp add: FileUploadForm_def)
  next
    case (Inr v')
    with \<open>field_clean d = Inr v\<close> assms have "v' = up" by (simp add: FileUploadForm_def)
    with Inr show ?thesis by (simp add: clean_file_returns_allowed)
  qed
qed

lemma upload_file_keeps_rows_validated:
  assumes "rows_validated (db w)" and "upload_file field_clean now req w = Inr (page, w')"
  shows "rows_validated (db w')"
proof (cases "request_method req = ''POST'' \<and> is_valid (FileUploadForm field_clean (FILES req))")
  case False
  with assms(2) have "w' = w"
    by (auto simp: upload_file_def render_upload_def Let_def split: if_splits)
  with assms(1) show ?thesis by simp
next
  case True
  with assms(2) obtain up where up: "cleaned_data (FileUploadForm field_clean (FILES req)) = Some up"
    by (cases "cleaned_data (FileUploadForm field_clean (FILES req))")
       (simp_all add: upload_file_def Let_def)
  obtain obj s1 where cr: "objects_create now (name up) (data up) (content_type up) (db w) = (obj, s1)"
    by (cases "objects_create now (name up) (data up) (content_type up) (db w)")
  from True up cr assms(2) have "db w' = s1"
    by (auto simp: upload_file_def Let_def)
  moreover from objects_create_eq [OF cr]
  have "rows s1 = rows (db w) @ [obj]" "file_content_type obj = content_type up" by simp_all
  moreover from up have "content_type up \<in> set ALLOWED_IMAGE_TYPES" by (rule cleaned_data_allowed)
  ultimately show ?thesis using assms(1) by (simp add: rows_validated_def)
qed

lemma rows_validated_plain:
  assumes "rows_validated s" and "r \<in> set (rows s)"
  shows "\<not> has_newline (file_content_type r) \<and> encodes_latin1 (file_content_type r)"
proof -
  from assms have "file_content_type r \<in> set ALLOWED_IMAGE_TYPES"
    by (simp add: rows_validated_def list_all_iff)
  then show ?thesis by (rule allowed_type_plain)
qed

text \<open>
  C7 (as amended). A download request for an id that no row has ends in \<open>Http404\<close>. For a
  stored row whose content type and name have no carriage return or line feed and only
  Latin-1 characters, the response has status 200, the stored content as body, the header
  Content-Type equal to the stored content type and the header Content-Disposition equal to
  attachment; filename="<name>". A carriage return or line feed in the name or the content
  type makes the view raise \<open>BadHeaderError\<close>; a name beyond Latin-1 puts the encoded-word
  of that text into the header instead of the text.
\<close>

theorem download_file_response:
  assumes "store_ok s"
  shows "(i \<notin> file_id ` set (rows s) \<longrightarrow> download_file s i = Inl Http404)
         \<and> (r \<in> set (rows s)
              \<and> \<not> has_newline (file_content_type r) \<and> encodes_latin1 (file_content_type r)
              \<and> \<not> has_newline (file_name r) \<and> encodes_latin1 (file_name r) \<longrightarrow>
              download_file s (file_id r)
                = Inr \<lparr>status = 200,
                       headers = [(''content-type'', ''Content-Type'', Plain (file_content_type r)),
                                  (''content-disposition'', ''Content-Disposition'',
                                   Plain (''attachment; filename='' @ [CHR 0x22] @ file_name r
                                            @ [CHR 0x22]))],
                       body = file_content r\<rparr>)
         \<and> (r \<in> set (rows s)
              \<and> (has_newline (file_content_type r) \<or> has_newline (file_name r)) \<longrightarrow>
              download_file s (file_id r) = Inl BadHeaderError)
         \<and> (r \<in> set (rows s)
              \<and> \<not> has_newline (file_content_type r) \<and> encodes_latin1 (file_content_type r)
              \<and> \<not> has_newline (file_name r) \<and> \<not> encodes_latin1 (file_name r) \<longrightarrow>
              download_file s (file_id r)
                = Inr \<lparr>status = 200,
                       headers = [(''content-type'', ''Content-Type'', Plain (file_content_type r)),
                                  (''content-disposition'', ''Content-Disposition'',
                                   MimeEncoded (''attachment; filename='' @ [CHR 0x22] @ file_name r
                                                  @ [CHR 0x22]))],
                       body = file_content r\<rparr>)"
proof (intro conjI impI)
  assume "i \<notin> file_id ` set (rows s)"
  then show "download_file s i = Inl Http404"
    by (simp add: download_file_def get_object_or_404_absent)
next
  assume "r \<in> set (rows s)
              \<and> \<not> has_newline (file_content_type r) \<and> encodes_latin1 (file_content_type r)
              \<and> \<not> has_newline (file_name r) \<and> encodes_latin1 (file_name r)"
  with assms show "download_file s (file_id r)
                = Inr \<lparr>status = 200,
                       headers = [(''content-type'', ''Content-Type'', Plain (file_content_type r)),
                                  (''content-disposition'', ''Content-Disposition'',
                                   Plain (''attachment; filename='' @ [CHR 0x22] @ file_name r
                                            @ [CHR 0x22]))],
                       body = file_content r\<rparr>"
    by (simp add: download_file_row content_disposition_def)
next
  assume "r \<in> set (rows s) \<and> (has_newline (file_content_type r) \<or> has_newline (file_name r))"
  with assms show "download_file s (file_id r) = Inl BadHeaderError"
    by (simp add: download_file_row)
next
  assume "r \<in> set (rows s)
              \<and> \<not> has_newline (file_content_type r) \<and> encodes_latin1 (file_content_type r)
              \<and> \<not> has_newline (file_name r) \<and> \<not> encodes_latin1 (file_name r)"
  with assms show "download_file s (file_id r)
                = Inr \<lparr>status = 200,
                       headers = [(''content-type'', ''Content-Type'', Plain (file_content_type r)),
                                  (''content-disposition'', ''Content-Disposition'',
                                   MimeEncoded (''attachment; filename='' @ [CHR 0x22] @ file_name r
                                                  @ [CHR 0x22]))],
                       body = file_content r\<rparr>"
    by (simp add: download_file_row content_disposition_def)
qed


theorem download_file_response_witness:
  "store_ok \<lparr>rows = [\<lparr>file_id = 1, file_name = ''a.png'', file_content = [1, 2, 3, 4, 5, 6, 7, 8, 9, 10],
                        file_content_type = ''image/png'', uploaded_at = Some 100\<rparr>,
                      \<lparr>file_id = 2, file_name = ''a'' @ [CHR 0x0A] @ ''b.png'', file_content = [1],
                        file_content_type = ''image/png'', uploaded_at = Some 101\<rparr>,
                      \<lparr>file_id = 3, file_name = [CHR 0xE6, CHR 0x97, CHR 0xA5] @ ''.png'',
                        file_content = [2], file_content_type = ''image/png'',
                        uploaded_at = Some 102\<rparr>],
              next_id = 4\<rparr>
   \<and> download_file
         \<lparr>rows = [\<lparr>file_id = 1, file_name = ''a.png'', file_content = [1, 2, 3, 4, 5, 6, 7, 8, 9, 10],
                    file_content_type = ''image/png'', uploaded_at = Some 100\<rparr>,
                  \<lparr>file_id = 2, file_name = ''a'' @ [CHR 0x0A] @ ''b.png'', file_content = [1],
                    file_content_type = ''image/png'', uploaded_at = Some 101\<rparr>,
                  \<lparr>file_id = 3, file_name = [CHR 0xE6, CHR 0x97, CHR 0xA5] @ ''.png'',
                    file_content = [2], file_content_type = ''image/png'',
                    uploaded_at = Some 102\<rparr>],
           next_id = 4\<rparr> 999999 = Inl Http404
   \<and> download_file
         \<lparr>rows = [\<lparr>file_id = 1, file_name = ''a.png'', file_content = [1, 2, 3, 4, 5, 6, 7, 8, 9, 10],
                    file_content_type = ''image/png'', uploaded_at = Some 100\<rparr>,
                  \<lparr>file_id = 2, file_name = ''a'' @ [CHR 0x0A] @ ''b.png'', file_content = [1],
                    file_content_type = ''image/png'', uploaded_at = Some 101\<rparr>,
                  \<lparr>file_id = 3, file_name = [CHR 0xE6, CHR 0x97, CHR 0xA5] @ ''.png'',
                    file_content = [2], file_content_type = ''image/png'',
                    uploaded_at = Some 102\<rparr>],
           next_id = 4\<rparr> 1
       = Inr \<lparr>status = 200,
              headers = [(''content-type'', ''Content-Type'', Plain ''image/png''),
                         (''content-disposition'', ''Content-Disposition'',
                          Plain (''attachment; filename='' @ [CHR 0x22] @ ''a.png'' @ [CHR 0x22]))],
              body = [1, 2, 3, 4, 5, 6, 7, 8, 9, 10]\<rparr>
   \<and> download_file
         \<lparr>rows = [\<lparr>file_id = 1, file_name = ''a.png'', file_content = [1, 2, 3, 4, 5, 6, 7, 8, 9, 10],
                    file_content_type = ''image/png'', uploaded_at = Some 100\<rparr>,
                  \<lparr>file_id = 2, file_name = ''a'' @ [CHR 0x0A] @ ''b.png'', file_content = [1],
                    file_content_type = ''image/png'', uploaded_at = Some 101\<rparr>,
                  \<lparr>file_id = 3, file_name = [CHR 0xE6, CHR 0x97, CHR 0xA5] @ ''.png'',
                    file_content = [2], file_content_type = ''image/png'',
                    uploaded_at = Some 102\<rparr>],
           next_id = 4\<rparr> 2 = Inl BadHeaderError
   \<and> download_file
         \<lparr>rows = [\<lparr>file_id = 1, file_name = ''a.png'', file_content = [1, 2, 3, 4, 5, 6, 7, 8, 9, 10],
                    file_content_type = ''image/png'', uploaded_at = Some 100\<rparr>,
                  \<lparr>file_id = 2, file_name = ''a'' @ [CHR 0x0A] @ ''b.png'', file_content = [1],
                    file_content_type = ''image/png'', uploaded_at = Some 101\<rparr>,
                  \<lparr>file_id = 3, file_name = [CHR 0xE6, CHR 0x97, CHR 0xA5] @ ''.png'',
                    file_content = [2], file_content_type = ''image/png'',
                    uploaded_at = Some 102\<rparr>],
           next_id = 4\<rparr> 3
       = Inr \<lparr>status = 200,
              headers = [(''content-type'', ''Content-Type'', Plain ''image/png''),
                         (''content-disposition'', ''Content-Disposition'',
                          MimeEncoded (''attachment; filename='' @ [CHR 0x22]
                                         @ [CHR 0xE6, CHR 0x97, CHR 0xA5] @ ''.png'' @ [CHR 0x22]))],
              body = [2]\<rparr>"
proof -
  let ?r1 = "\<lparr>file_id = 1, file_name = ''a.png'',
              file_content = [1, 2, 3, 4, 5, 6, 7, 8, 9, 10 :: 8 word],
              file_content_type = ''image/png'', uploaded_at = Some (100 :: timestamp)\<rparr>"
  let ?r2 = "\<lparr>file_id = 2, file_name = ''a'' @ [CHR 0x0A] @ ''b.png'', file_content = [1 :: 8 word],
              file_content_type = ''image/png'', uploaded_at = Some (101 :: timestamp)\<rparr>"
  let ?r3 = "\<lparr>file_id = 3, file_name = [CHR 0xE6, CHR 0x97, CHR 0xA5] @ ''.png'',
              file_content = [2 :: 8 word], file_content_type = ''image/png'',
              uploaded_at = Some (102 :: timestamp)\<rparr>"
  let ?s = "\<lparr>rows = [?r1, ?r2, ?r3], next_id = 4\<rparr>"
  have ok: "store_ok ?s" by (simp add: store_ok_def)
  have absent: "999999 \<notin> file_id ` set (rows ?s)" by simp
  have plain: "\<not> has_newline ''image/png''" "encodes_latin1 ''image/png''"
    "\<not> has_newline ''a.png''" "encodes_latin1 ''a.png''"
    by (simp_all add: has_newline_def encodes_latin1_def)
  have nl: "has_newline (''a'' @ [CHR 0x0A] @ ''b.png'')" by (simp add: has_newline_def)
  have wide: "\<not> has_newline ([CHR 0xE6, CHR 0x97, CHR 0xA5] @ ''.png'')"
    "\<not> encodes_latin1 ([CHR 0xE6, CHR 0x97, CHR 0xA5] @ ''.png'')"
    by (simp_all add: has_newline_def encodes_latin1_def)
  from download_file_response [OF ok, where i = 999999 and r = ?r1] absent plain
  have a: "download_file ?s 999999 = Inl Http404"
    and b: "download_file ?s 1
       = Inr \<lparr>status = 200,
              headers = [(''content-type'', ''Content-Type'', Plain ''image/png''),
                         (''content-disposition'', ''Content-Disposition'',
                          Plain (''attachment; filename='' @ [CHR 0x22] @ ''a.png'' @ [CHR 0x22]))],
              body = [1, 2, 3, 4, 5, 6, 7, 8, 9, 10]\<rparr>"
    by simp_all
  from download_file_response [OF ok, where i = 999999 and r = ?r2] nl
  have c: "download_file ?s 2 = Inl BadHeaderError" by simp
  from download_file_response [OF ok, where i = 999999 and r = ?r3] plain(1,2) wide
  have d: "download_file ?s 3
       = Inr \<lparr>status = 200,
              headers = [(''content-type'', ''Content-Type'', Plain ''image/png''),
                         (''content-disposition'', ''Content-Disposition'',
                          MimeEncoded (''attachment; filename='' @ [CHR 0x22]
                                         @ [CHR 0xE6, CHR 0x97, CHR 0xA5] @ ''.png'' @ [CHR 0x22]))],
              body = [2]\<rparr>"
    by simp
  from ok a b c d show ?thesis by (simp only: simp_thms)
qed

text \<open>
  A file whose name starts with a CJK character (UTF-8 bytes E6 97 A5) is accepted by the
  upload view; downloading it gives a Content-Disposition header that holds the
  encoded-word and not the text attachment; filename="<name>". A stored name with a line
  feed makes the download raise.
\<close>

theorem download_file_header_not_verbatim:
  "upload_file FileField_clean 100
     \<lparr>request_method = ''POST'',
       FILES = Some \<lparr>name = [CHR 0xE6, CHR 0x97, CHR 0xA5] @ ''.png'', content_type = ''image/png'',
                      size = 3, data = [7, 8, 9]\<rparr>\<rparr>
     \<lparr>db = empty_store, messages = []\<rparr>
     = Inr (Redirect ''upload_file'',
            \<lparr>db = \<lparr>rows = [\<lparr>file_id = 1, file_name = [CHR 0xE6, CHR 0x97, CHR 0xA5] @ ''.png'',
                               file_content = [7, 8, 9], file_content_type = ''image/png'',
                               uploaded_at = Some 100\<rparr>],
                     next_id = 2\<rparr>,
              messages = [''File uploaded successfully!'']\<rparr>)
   \<and> download_file
        \<lparr>rows = [\<lparr>file_id = 1, file_name = [CHR 0xE6, CHR 0x97, CHR 0xA5] @ ''.png'',
                   file_content = [7, 8, 9], file_content_type = ''image/png'',
                   uploaded_at = Some 100\<rparr>],
          next_id = 2\<rparr> 1
       = Inr \<lparr>status = 200,
              headers = [(''content-type'', ''Content-Type'', Plain ''image/png''),
                         (''content-disposition'', ''Content-Disposition'',
                          MimeEncoded (''attachment; filename='' @ [CHR 0x22]
                                         @ [CHR 0xE6, CHR 0x97, CHR 0xA5] @ ''.png'' @ [CHR 0x22]))],
              body = [7, 8, 9]\<rparr>
   \<and> get_header ''Content-Disposition''
         [(''content-type'', ''Content-Type'', Plain ''image/png''),
          (''content-disposition'', ''Content-Disposition'',
           MimeEncoded (''attachment; filename='' @ [CHR 0x22]
                          @ [CHR 0xE6, CHR 0x97, CHR 0xA5] @ ''.png'' @ [CHR 0x22]))]
       \<noteq> Some (Plain (''attachment; filename='' @ [CHR 0x22]
                        @ [CHR 0xE6, CHR 0x97, CHR 0xA5] @ ''.png'' @ [CHR 0x22]))
   \<and> download_file
        \<lparr>rows = [\<lparr>file_id = 1, file_name = ''a'' @ [CHR 0x0A] @ ''b.png'',
                   file_content = [7, 8, 9], file_content_type = ''image/png'',
                   uploaded_at = Some 100\<rparr>],
          next_id = 2\<rparr> 1
       = Inl BadHeaderError"
proof -
  have up: "upload_file FileField_clean 100
     \<lparr>request_method = ''POST'',
       FILES = Some \<lparr>name = [CHR 0xE6, CHR 0x97, CHR 0xA5] @ ''.png'', content_type = ''image/png'',
                      size = 3, data = [7, 8, 9]\<rparr>\<rparr>
     \<lparr>db = empty_store, messages = []\<rparr>
     = Inr (Redirect ''upload_file'',
            \<lparr>db = \<lparr>rows = [\<lparr>file_id = 1, file_name = [CHR 0xE6, CHR 0x97, CHR 0xA5] @ ''.png'',
                               file_content = [7, 8, 9], file_content_type = ''image/png'',
                               uploaded_at = Some 100\<rparr>],
                     next_id = 2\<rparr>,
              messages = [''File uploaded successfully!'']\<rparr>)"
    by (simp add: upload_file_def FileUploadForm_def FileField_clean_def clean_file_def
          ALLOWED_IMAGE_TYPES_def MAX_FILE_SIZE_def is_valid_def objects_create_def
          empty_store_def Let_def)
  have dl: "download_file
        \<lparr>rows = [\<lparr>file_id = 1, file_name = [CHR 0xE6, CHR 0x97, CHR 0xA5] @ ''.png'',
                   file_content = [7, 8, 9], file_content_type = ''image/png'',
                   uploaded_at = Some 100\<rparr>],
          next_id = 2\<rparr> 1
       = Inr \<lparr>status = 200,
              headers = [(''content-type'', ''Content-Type'', Plain ''image/png''),
                         (''content-disposition'', ''Content-Disposition'',
                          MimeEncoded (''attachment; filename='' @ [CHR 0x22]
                                         @ [CHR 0xE6, CHR 0x97, CHR 0xA5] @ ''.png'' @ [CHR 0x22]))],
              body = [7, 8, 9]\<rparr>"
    by (simp add: download_file_def get_object_or_404_def objects_get_def HttpResponse_def
          set_header_def convert_name_def convert_value_def has_newline_def encodes_ascii_def
          encodes_latin1_def lower_def ascii_lower_def content_disposition_def)
  have hd: "get_header ''Content-Disposition''
         [(''content-type'', ''Content-Type'', Plain ''image/png''),
          (''content-disposition'', ''Content-Disposition'',
           MimeEncoded (''attachment; filename='' @ [CHR 0x22]
                          @ [CHR 0xE6, CHR 0x97, CHR 0xA5] @ ''.png'' @ [CHR 0x22]))]
       \<noteq> Some (Plain (''attachment; filename='' @ [CHR 0x22]
                        @ [CHR 0xE6, CHR 0x97, CHR 0xA5] @ ''.png'' @ [CHR 0x22]))"
    by (simp add: get_header_def lower_def ascii_lower_def)
  have nl: "download_file
        \<lparr>rows = [\<lparr>file_id = 1, file_name = ''a'' @ [CHR 0x0A] @ ''b.png'',
                   file_content = [7, 8, 9], file_content_type = ''image/png'',
                   uploaded_at = Some 100\<rparr>],
          next_id = 2\<rparr> 1
       = Inl BadHeaderError"
    by (simp add: download_file_def get_object_or_404_def objects_get_def HttpResponse_def
          set_header_def convert_name_def convert_value_def has_newline_def encodes_ascii_def
          encodes_latin1_def lower_def ascii_lower_def content_disposition_def)
  from up dl hd nl show ?thesis by (simp only: simp_thms)
qed

text \<open>
  C8. In every state the upload view can produce (unique ids, content types that passed
  \<open>clean_file\<close>), the inline-display view looks the row up as the download view does: an
  exception of the lookup leaves both views alike, an id no row has ends both in
  \<open>Http404\<close>, and for a stored row the answer has status 200, the stored bytes as body and
  Content-Type equal to the stored content type as its only header, so it has no
  Content-Disposition header.
\<close>

theorem display_image_response:
  assumes "store_ok s" and "rows_validated s"
  shows "(get_object_or_404 s i = Inl e \<longrightarrow> display_image s i = Inl e \<and> download_file s i = Inl e)
         \<and> (i \<notin> file_id ` set (rows s) \<longrightarrow>
              display_image s i = Inl Http404 \<and> download_file s i = Inl Http404)
         \<and> (r \<in> set (rows s) \<longrightarrow>
              display_image s (file_id r)
                = Inr \<lparr>status = 200,
                       headers = [(''content-type'', ''Content-Type'', Plain (file_content_type r))],
                       body = file_content r\<rparr>
              \<and> get_header ''Content-Disposition''
                    [(''content-type'', ''Content-Type'', Plain (file_content_type r))] = None)"
proof (intro conjI impI)
  assume "get_object_or_404 s i = Inl e"
  then show "display_image s i = Inl e" "download_file s i = Inl e"
    by (simp_all add: display_image_def download_file_def)
next
  assume "i \<notin> file_id ` set (rows s)"
  then show "display_image s i = Inl Http404" "download_file s i = Inl Http404"
    by (simp_all add: display_image_def download_file_def get_object_or_404_absent)
next
  assume mem: "r \<in> set (rows s)"
  with assms(2) have "\<not> has_newline (file_content_type r)" "encodes_latin1 (file_content_type r)"
    by (simp_all add: rows_validated_plain)
  with assms(1) mem show "display_image s (file_id r)
                = Inr \<lparr>status = 200,
                       headers = [(''content-type'', ''Content-Type'', Plain (file_content_type r))],
                       body = file_content r\<rparr>"
    by (simp add: display_image_row)
next
  show "get_header ''Content-Disposition''
          [(''content-type'', ''Content-Type'', Plain (file_content_type r))] = None"
    by (simp add: get_header_def lower_consts)
qed

theorem display_image_response_witness:
  "store_ok \<lparr>rows = [\<lparr>file_id = 4, file_name = ''cat.gif'', file_content = [71, 73, 70],
                        file_content_type = ''image/gif'', uploaded_at = Some 100\<rparr>], next_id = 5\<rparr>
   \<and> rows_validated \<lparr>rows = [\<lparr>file_id = 4, file_name = ''cat.gif'', file_content = [71, 73, 70],
                        file_content_type = ''image/gif'', uploaded_at = Some 100\<rparr>], next_id = 5\<rparr>
   \<and> get_object_or_404
         \<lparr>rows = [\<lparr>file_id = 4, file_name = ''cat.gif'', file_content = [71, 73, 70],
                    file_content_type = ''image/gif'', uploaded_at = Some 100\<rparr>], next_id = 5\<rparr>
         999999 = Inl Http404
   \<and> display_image
         \<lparr>rows = [\<lparr>file_id = 4, file_name = ''cat.gif'', file_content = [71, 73, 70],
                    file_content_type = ''image/gif'', uploaded_at = Some 100\<rparr>], next_id = 5\<rparr>
         999999 = Inl Http404
   \<and> download_file
         \<lparr>rows = [\<lparr>file_id = 4, file_name = ''cat.gif'', file_content = [71, 73, 70],
                    file_content_type = ''image/gif'', uploaded_at = Some 100\<rparr>], next_id = 5\<rparr>
         999999 = Inl Http404
   \<and> display_image
         \<lparr>rows = [\<lparr>file_id = 4, file_name = ''cat.gif'', file_content = [71, 73, 70],
                    file_content_type = ''image/gif'', uploaded_at = Some 100\<rparr>], next_id = 5\<rparr>
         4 = Inr \<lparr>status = 200, headers = [(''content-type'', ''Content-Type'', Plain ''image/gif'')],
                   body = [71, 73, 70]\<rparr>
   \<and> get_header ''Content-Disposition'' [(''content-type'', ''Content-Type'', Plain ''image/gif'')]
       = None"
proof -
  let ?r = "\<lparr>file_id = 4, file_name = ''cat.gif'', file_content = [71, 73, 70 :: 8 word],
             file_content_type = ''image/gif'', uploaded_at = Some (100 :: timestamp)\<rparr>"
  let ?s = "\<lparr>rows = [?r], next_id = 5\<rparr>"
  have ok: "store_ok ?s" by (simp add: store_ok_def)
  have val: "rows_validated ?s" by (simp add: rows_validated_def ALLOWED_IMAGE_TYPES_def)
  have absent: "999999 \<notin> file_id ` set (rows ?s)" by simp
  then have look: "get_object_or_404 ?s 999999 = Inl Http404" by (rule get_object_or_404_absent)
  have mem: "?r \<in> set (rows ?s)" by simp
  note inst = display_image_response [OF ok val, where i = 999999 and r = ?r and e = Http404]
  from inst look have a: "display_image ?s 999999 = Inl Http404"
    "download_file ?s 999999 = Inl Http404" by blast+
  from inst mem have b: "display_image ?s (file_id ?r)
       = Inr \<lparr>status = 200,
              headers = [(''content-type'', ''Content-Type'', Plain (file_content_type ?r))],
              body = file_content ?r\<rparr>"
    "get_header ''Content-Disposition''
       [(''content-type'', ''Content-Type'', Plain (file_content_type ?r))] = None" by blast+
  from b have c: "display_image ?s 4
       = Inr \<lparr>status = 200, headers = [(''content-type'', ''Content-Type'', Plain ''image/gif'')],
              body = [71, 73, 70]\<rparr>"
    "get_header ''Content-Disposition'' [(''content-type'', ''Content-Type'', Plain ''image/gif'')]
       = None" by simp_all
  from ok val look a c show ?thesis by (simp only: simp_thms)
qed

lemma content_disposition_length: "length (content_disposition n) = length n + 23"
  by (simp add: content_disposition_def)

lemma content_disposition_quotes:
  "count_list (content_disposition n) (CHR 0x22) = count_list n (CHR 0x22) + 2"
  by (simp add: content_disposition_def)

text \<open>
  C10 (as amended). For every stored row whose content type and name have no carriage return
  or line feed and only Latin-1 characters, the download view sets Content-Disposition to
  the text attachment; filename=" followed by the stored name as it is and a closing double
  quote. Nothing is escaped or removed: the value is 23 characters longer than the name, the
  name is its part from position 22 on, and it has exactly two double quotes more than the
  name, also when the name itself contains double quotes, semicolons or backslashes. With a
  carriage return or line feed in the name the view raises and sets no header at all.
\<close>

theorem download_file_name_verbatim:
  assumes "store_ok s" and "r \<in> set (rows s)"
    and "\<not> has_newline (file_content_type r)" and "encodes_latin1 (file_content_type r)"
    and "\<not> has_newline (file_name r)" and "encodes_latin1 (file_name r)"
  shows "\<exists>resp v. download_file s (file_id r) = Inr resp
           \<and> get_header ''Content-Disposition'' (headers resp) = Some (Plain v)
           \<and> v = ''attachment; filename='' @ [CHR 0x22] @ file_name r @ [CHR 0x22]
           \<and> length v = length (file_name r) + 23
           \<and> take (length (file_name r)) (drop 22 v) = file_name r
           \<and> count_list v (CHR 0x22) = count_list (file_name r) (CHR 0x22) + 2"
proof -
  let ?v = "content_disposition (file_name r)"
  let ?resp = "\<lparr>status = 200,
                 headers = [(''content-type'', ''Content-Type'', Plain (file_content_type r)),
                            (''content-disposition'', ''Content-Disposition'', Plain ?v)],
                 body = file_content r\<rparr>"
  from assms have "download_file s (file_id r) = Inr ?resp" by (simp add: download_file_row)
  moreover have "get_header ''Content-Disposition'' (headers ?resp) = Some (Plain ?v)"
    by (simp add: get_header_def lower_consts)
  moreover have "?v = ''attachment; filename='' @ [CHR 0x22] @ file_name r @ [CHR 0x22]"
    by (simp add: content_disposition_def)
  moreover have "length ?v = length (file_name r) + 23" by (rule content_disposition_length)
  moreover have "take (length (file_name r)) (drop 22 ?v) = file_name r"
    by (simp add: content_disposition_def)
  moreover have "count_list ?v (CHR 0x22) = count_list (file_name r) (CHR 0x22) + 2"
    by (rule content_disposition_quotes)
  ultimately show ?thesis by blast
qed

theorem download_file_name_verbatim_witness:
  "store_ok \<lparr>rows = [\<lparr>file_id = 3, file_name = ''evil'' @ [CHR 0x22] @ ''; filename=x.sh'',
                        file_content = [1, 2], file_content_type = ''image/png'',
                        uploaded_at = Some 100\<rparr>], next_id = 4\<rparr>
   \<and> \<not> has_newline ''image/png'' \<and> encodes_latin1 ''image/png''
   \<and> \<not> has_newline (''evil'' @ [CHR 0x22] @ ''; filename=x.sh'')
   \<and> encodes_latin1 (''evil'' @ [CHR 0x22] @ ''; filename=x.sh'')
   \<and> (\<exists>resp v.
        download_file
          \<lparr>rows = [\<lparr>file_id = 3, file_name = ''evil'' @ [CHR 0x22] @ ''; filename=x.sh'',
                     file_content = [1, 2], file_content_type = ''image/png'',
                     uploaded_at = Some 100\<rparr>], next_id = 4\<rparr> 3 = Inr resp
        \<and> get_header ''Content-Disposition'' (headers resp) = Some (Plain v)
        \<and> v = ''attachment; filename='' @ [CHR 0x22] @ ''evil'' @ [CHR 0x22]
                @ ''; filename=x.sh'' @ [CHR 0x22]
        \<and> length v = 43
        \<and> count_list v (CHR 0x22) = 3)"
proof -
  let ?r = "\<lparr>file_id = 3, file_name = ''evil'' @ [CHR 0x22] @ ''; filename=x.sh'',
             file_content = [1, 2 :: 8 word], file_content_type = ''image/png'',
             uploaded_at = Some (100 :: timestamp)\<rparr>"
  let ?s = "\<lparr>rows = [?r], next_id = 4\<rparr>"
  have ok: "store_ok ?s" by (simp add: store_ok_def)
  have mem: "?r \<in> set (rows ?s)" by simp
  have ct: "\<not> has_newline ''image/png''" "encodes_latin1 ''image/png''"
    by (simp_all add: has_newline_def encodes_latin1_def)
  have nm: "\<not> has_newline (''evil'' @ [CHR 0x22] @ ''; filename=x.sh'')"
    "encodes_latin1 (''evil'' @ [CHR 0x22] @ ''; filename=x.sh'')"
    by (simp_all add: has_newline_def encodes_latin1_def)
  have ct': "\<not> has_newline (file_content_type ?r)" "encodes_latin1 (file_content_type ?r)"
    using ct by simp_all
  have nm': "\<not> has_newline (file_name ?r)" "encodes_latin1 (file_name ?r)"
    using nm by simp_all
  from download_file_name_verbatim [OF ok mem ct' nm']
  obtain resp v where "download_file ?s (file_id ?r) = Inr resp"
    and "get_header ''Content-Disposition'' (headers resp) = Some (Plain v)"
    and "v = ''attachment; filename='' @ [CHR 0x22] @ file_name ?r @ [CHR 0x22]"
    and "length v = length (file_name ?r) + 23"
    and "count_list v (CHR 0x22) = count_list (file_name ?r) (CHR 0x22) + 2"
    by blast
  then have "download_file ?s 3 = Inr resp
        \<and> get_header ''Content-Disposition'' (headers resp) = Some (Plain v)
        \<and> v = ''attachment; filename='' @ [CHR 0x22] @ ''evil'' @ [CHR 0x22]
                @ ''; filename=x.sh'' @ [CHR 0x22]
        \<and> length v = 43
        \<and> count_list v (CHR 0x22) = 3"
    by simp
  then have "\<exists>resp v. download_file ?s 3 = Inr resp
        \<and> get_header ''Content-Disposition'' (headers resp) = Some (Plain v)
        \<and> v = ''attachment; filename='' @ [CHR 0x22] @ ''evil'' @ [CHR 0x22]
                @ ''; filename=x.sh'' @ [CHR 0x22]
        \<and> length v = 43
        \<and> count_list v (CHR 0x22) = 3"
    by blast
  with ok ct nm show ?thesis by (simp only: simp_thms)
qed

text \<open>
  A stored name with a double quote followed by carriage return and line feed, the shape of
  a header injection: the download view raises \<open>BadHeaderError\<close> and produces no response
  with the name interpolated.
\<close>

theorem download_file_name_raises:
  "store_ok \<lparr>rows = [\<lparr>file_id = 1,
                        file_name = ''x.png'' @ [CHR 0x22, CHR 0x0D, CHR 0x0A] @ ''Set-Cookie: a=b'',
                        file_content = [1, 2], file_content_type = ''image/png'',
                        uploaded_at = Some 100\<rparr>], next_id = 2\<rparr>
   \<and> download_file
        \<lparr>rows = [\<lparr>file_id = 1,
                   file_name = ''x.png'' @ [CHR 0x22, CHR 0x0D, CHR 0x0A] @ ''Set-Cookie: a=b'',
                   file_content = [1, 2], file_content_type = ''image/png'',
                   uploaded_at = Some 100\<rparr>], next_id = 2\<rparr> 1
       = Inl BadHeaderError
   \<and> download_file
        \<lparr>rows = [\<lparr>file_id = 1,
                   file_name = ''x.png'' @ [CHR 0x22, CHR 0x0D, CHR 0x0A] @ ''Set-Cookie: a=b'',
                   file_content = [1, 2], file_content_type = ''image/png'',
                   uploaded_at = Some 100\<rparr>], next_id = 2\<rparr> 1
       \<noteq> Inr \<lparr>status = 200,
               headers = [(''content-type'', ''Content-Type'', Plain ''image/png''),
                          (''content-disposition'', ''Content-Disposition'',
                           Plain (''attachment; filename='' @ [CHR 0x22] @ ''x.png''
                                    @ [CHR 0x22, CHR 0x0D, CHR 0x0A] @ ''Set-Cookie: a=b''
                                    @ [CHR 0x22]))],
               body = [1, 2]\<rparr>"
proof -
  have ok: "store_ok \<lparr>rows = [\<lparr>file_id = 1,
                        file_name = ''x.png'' @ [CHR 0x22, CHR 0x0D, CHR 0x0A] @ ''Set-Cookie: a=b'',
                        file_content = [1, 2], file_content_type = ''image/png'',
                        uploaded_at = Some 100\<rparr>], next_id = 2\<rparr>"
    by (simp add: store_ok_def)
  have dl: "download_file
        \<lparr>rows = [\<lparr>file_id = 1,
                   file_name = ''x.png'' @ [CHR 0x22, CHR 0x0D, CHR 0x0A] @ ''Set-Cookie: a=b'',
                   file_content = [1, 2], file_content_type = ''image/png'',
                   uploaded_at = Some 100\<rparr>], next_id = 2\<rparr> 1
       = Inl BadHeaderError"
    by (simp add: download_file_def get_object_or_404_def objects_get_def HttpResponse_def
          set_header_def convert_name_def convert_value_def has_newline_def encodes_ascii_def
          encodes_latin1_def lower_def ascii_lower_def content_disposition_def)
  from ok dl show ?thesis by simp
qed

end
